theory Spec2Isabelle
  imports Main "HOL-Library.Word" "HOL-Library.AList"
begin

section \<open>Data model\<close>

text \<open>
  The three tables of the backend (\<^verbatim>\<open>src/models/task.py\<close>, \<^verbatim>\<open>conversation.py\<close>,
  \<^verbatim>\<open>message.py\<close>). A UUID is a 128-bit number, a \<^verbatim>\<open>datetime\<close> a count of
  microseconds. Python strings are Isabelle strings (one \<open>char\<close> per byte of the UTF-8
  text, exact on ASCII text). The field names carry a prefix, since the three tables share
  \<^verbatim>\<open>id\<close>, \<^verbatim>\<open>user_id\<close> and \<^verbatim>\<open>created_at\<close>.
\<close>

type_synonym uuid = "128 word"
type_synonym datetime = int

record task =
  t_id :: uuid
  t_user_id :: uuid
  t_title :: string
  t_completed :: bool
  t_priority :: string
  t_due_date :: "datetime option"
  t_tags :: "string option"
  t_created_at :: datetime
  t_updated_at :: datetime

record conversation =
  c_id :: uuid
  c_user_id :: uuid
  c_created_at :: datetime

record message =
  m_id :: uuid
  m_conversation_id :: uuid
  m_role :: string
  m_content :: string
  m_created_at :: datetime

text \<open>
  Exceptions are values. \<open>ValueError\<close> is what the tools and the chat service raise,
  \<open>HTTPException\<close> what the endpoints raise (status code and detail), and \<open>Exception\<close>
  stands for every other exception class (\<^verbatim>\<open>TypeError\<close>, a database driver error, an
  API client error), with the text \<^verbatim>\<open>str(e)\<close> gives.
\<close>

datatype exn = ValueError string | HTTPException nat string | Exception string

fun str_exn :: "exn \<Rightarrow> string" where
  "str_exn (ValueError m) = m"
| "str_exn (HTTPException c d) = d"
| "str_exn (Exception m) = m"


subsection \<open>JSON values and the reply of the language model\<close>

text \<open>
  The arguments of a tool call are a JSON object; the five tool schemas declare string and
  boolean parameters only, so a value is a string, a boolean or null. The object is an
  association list, \<^verbatim>\<open>d[k] = v\<close> is \<^const>\<open>AList.update\<close> and \<^verbatim>\<open>k in d\<close> a test on the
  keys. When the argument text does not decode to a JSON object (\<^verbatim>\<open>json.loads\<close> or the
  item assignment raises), the tool call carries the text of that exception instead.
\<close>

datatype jval = JNull | JBool bool | JStr string

type_synonym jobject = "(string \<times> jval) list"

record tool_call =
  tc_name :: string
  tc_arguments :: "string + jobject"

record llm_message =
  msg_content :: "string option"
  msg_tool_calls :: "tool_call list"

datatype llm_response = ApiError string | Completion llm_message

subsection \<open>The collaborators outside the repository\<close>

text \<open>
  The standard library, the clock, the UUID generator and the language model are not code
  of the repository. They are the fields of one record, and every theorem holds for each
  value of it:
  \<^item> \<open>uuid_parse\<close> is \<^verbatim>\<open>UUID(s)\<close>, \<open>None\<close> when it raises \<^verbatim>\<open>ValueError\<close>; \<open>uuid_str\<close> is
    \<^verbatim>\<open>str(u)\<close>;
  \<^item> \<open>fromisoformat\<close> is \<^verbatim>\<open>datetime.fromisoformat\<close>, \<open>None\<close> when it raises; \<open>isoformat\<close>
    is \<^verbatim>\<open>d.isoformat()\<close>;
  \<^item> \<open>utcnow n\<close> is the \<open>n\<close>-th reading of \<^verbatim>\<open>datetime.utcnow()\<close> and \<open>uuid4 n\<close> the
    \<open>n\<close>-th value of \<^verbatim>\<open>uuid4()\<close>; the world counts the readings taken;
  \<^item> \<open>completions_create\<close> is \<^verbatim>\<open>client.chat.completions.create\<close> on the role-tagged
    messages, reduced to the first choice's message or to the exception it raised.
\<close>

record ext =
  uuid_parse :: "string \<Rightarrow> uuid option"
  uuid_str :: "uuid \<Rightarrow> string"
  fromisoformat :: "string \<Rightarrow> datetime option"
  isoformat :: "datetime \<Rightarrow> string"
  utcnow :: "nat \<Rightarrow> datetime"
  uuid4 :: "nat \<Rightarrow> uuid"
  completions_create :: "(string \<times> string) list \<Rightarrow> llm_response"

text \<open>
  The database session: the rows of the three tables in insertion order, and the fault of
  the persistence service, if it has one (then every \<^verbatim>\<open>execute\<close> and \<^verbatim>\<open>commit\<close> raises
  a driver exception with that text).
\<close>

record world =
  tasks :: "task list"
  conversations :: "conversation list"
  messages :: "message list"
  fault :: "string option"
  ticks :: nat
  drawn :: nat

section \<open>Python string operations\<close>

definition isspace :: "char \<Rightarrow> bool" where
  "isspace c \<longleftrightarrow> (of_char c :: nat) \<in> {9, 10, 11, 12, 13, 28, 29, 30, 31, 32}"

definition strip :: "string \<Rightarrow> string" where
  "strip s = rev (dropWhile isspace (rev (dropWhile isspace s)))"

definition replace_Z :: "string \<Rightarrow> string" where
  \<comment> \<open>\<^verbatim>\<open>s.replace('Z', '+00:00')\<close>\<close>
  "replace_Z s = concat (map (\<lambda>c. if c = CHR ''Z'' then ''+00:00'' else [c]) s)"

definition valid_priorities :: "string list" where
  "valid_priorities = [''low'', ''medium'', ''high'']"

section \<open>The Tool Layer\<close>

text \<open>
  Each tool returns \<^verbatim>\<open>json.dumps\<close> of a flat dictionary and the orchestrator reads it back
  with \<^verbatim>\<open>json.loads\<close> and \<^verbatim>\<open>.get\<close>; the model keeps the dictionary. A field is \<open>None\<close>
  when the key is absent or holds \<^verbatim>\<open>None\<close>, which is what \<^verbatim>\<open>.get\<close> tells apart.
\<close>

record task_item =
  i_task_id :: string
  i_title :: string
  i_completed :: bool
  i_priority :: string
  i_due_date :: "string option"
  i_tags :: "string option"
  i_created_at :: string
  i_updated_at :: string

record result_data =
  r_task_id :: "string option"
  r_status :: "string option"
  r_title :: "string option"
  r_completed :: "bool option"
  r_priority :: "string option"
  r_due_date :: "string option"
  r_tags :: "string option"
  r_created_at :: "string option"
  r_updated_at :: "string option"
  r_tasks :: "task_item list option"
  r_count :: "nat option"

definition no_keys :: result_data where
  "no_keys = \<lparr>r_task_id = None, r_status = None, r_title = None, r_completed = None,
     r_priority = None, r_due_date = None, r_tags = None, r_created_at = None,
     r_updated_at = None, r_tasks = None, r_count = None\<rparr>"

type_synonym 'a outcome = "(exn + 'a) \<times> world"

definition database_error :: "string \<Rightarrow> exn" where
  "database_error m = ValueError (''DATABASE_ERROR: '' @ m)"

text \<open>
  \<^verbatim>\<open>select(Task).where(Task.id == task_uuid)\<close>, \<^verbatim>\<open>session.execute\<close> and
  \<^verbatim>\<open>scalar_one_or_none\<close>: the driver's exception when the service is down, SQLAlchemy's
  \<^verbatim>\<open>MultipleResultsFound\<close> when more than one row has the id.
\<close>

definition select_task :: "world \<Rightarrow> uuid \<Rightarrow> string + task option" where
  "select_task s task_uuid =
     (case fault s of
        Some m \<Rightarrow> Inl m
      | None \<Rightarrow>
          (case filter (\<lambda>t. t_id t = task_uuid) (tasks s) of
             [] \<Rightarrow> Inr None
           | [t] \<Rightarrow> Inr (Some t)
           | _ \<Rightarrow> Inl ''Multiple rows were found when one or none was required''))"

definition add_task ::
  "ext \<Rightarrow> string \<Rightarrow> string option \<Rightarrow> string option \<Rightarrow> string option \<Rightarrow> string option
     \<Rightarrow> world \<Rightarrow> result_data outcome" where
  "add_task E user_id title priority due_date tags s =
     (case uuid_parse E user_id of
        None \<Rightarrow> (Inl (ValueError ''INVALID_USER_ID: user_id must be a valid UUID''), s)
      | Some user_uuid \<Rightarrow>
          if title = None \<or> the title = [] \<or> strip (the title) = []
          then (Inl (ValueError ''INVALID_TITLE: title cannot be empty''), s)
          else
            let title' = strip (the title) in
            if length title' > 500
            then (Inl (ValueError ''INVALID_TITLE: title cannot exceed 500 characters''), s)
            else if priority \<noteq> None \<and> the priority \<noteq> [] \<and> the priority \<notin> set valid_priorities
            then (Inl (ValueError
                    ''INVALID_PRIORITY: priority must be one of ['low', 'medium', 'high']''), s)
            else if due_date \<noteq> None \<and> the due_date \<noteq> []
                    \<and> fromisoformat E (replace_Z (the due_date)) = None
            then (Inl (ValueError
                    ''INVALID_DUE_DATE: due_date must be ISO format (e.g., 2025-01-25T10:30:00)''), s)
            else
              let parsed_due_date =
                    (if due_date \<noteq> None \<and> the due_date \<noteq> []
                     then fromisoformat E (replace_Z (the due_date)) else None);
                  task = \<lparr>t_id = uuid4 E (drawn s), t_user_id = user_uuid, t_title = title',
                          t_completed = False,
                          t_priority = (if priority = None \<or> the priority = []
                                        then ''medium'' else the priority),
                          t_due_date = parsed_due_date, t_tags = tags,
                          t_created_at = utcnow E (ticks s),
                          t_updated_at = utcnow E (ticks s + 1)\<rparr>;
                  s1 = s\<lparr>ticks := ticks s + 2, drawn := drawn s + 1\<rparr>
              in (case fault s of
                    Some m \<Rightarrow> (Inl (database_error m), s1)
                  | None \<Rightarrow>
                      (Inr (no_keys\<lparr>r_task_id := Some (uuid_str E (t_id task)),
                              r_status := Some ''created'',
                              r_title := Some (t_title task),
                              r_completed := Some (t_completed task),
                              r_priority := Some (t_priority task),
                              r_due_date := map_option (isoformat E) (t_due_date task),
                              r_tags := t_tags task,
                              r_created_at := Some (isoformat E (t_created_at task))\<rparr>),
                       s1\<lparr>tasks := tasks s @ [task]\<rparr>)))"

definition as_item :: "ext \<Rightarrow> task \<Rightarrow> task_item" where
  "as_item E t =
     \<lparr>i_task_id = uuid_str E (t_id t), i_title = t_title t, i_completed = t_completed t,
      i_priority = t_priority t, i_due_date = map_option (isoformat E) (t_due_date t),
      i_tags = t_tags t, i_created_at = isoformat E (t_created_at t),
      i_updated_at = isoformat E (t_updated_at t)\<rparr>"

definition list_tasks :: "ext \<Rightarrow> string \<Rightarrow> bool option \<Rightarrow> world \<Rightarrow> result_data outcome" where
  "list_tasks E user_id filter_completed s =
     (case uuid_parse E user_id of
        None \<Rightarrow> (Inl (ValueError ''INVALID_USER_ID: user_id must be a valid UUID''), s)
      | Some user_uuid \<Rightarrow>
          (case fault s of
             Some m \<Rightarrow> (Inl (database_error m), s)
           | None \<Rightarrow>
               let rows = filter (\<lambda>t. t_user_id t = user_uuid
                                   \<and> (case filter_completed of
                                        None \<Rightarrow> True
                                      | Some b \<Rightarrow> t_completed t = b)) (tasks s);
                   tasks_list = map (as_item E) rows
               in (Inr (no_keys\<lparr>r_tasks := Some tasks_list,
                                r_count := Some (length tasks_list)\<rparr>), s)))"

definition complete_task :: "ext \<Rightarrow> string \<Rightarrow> string \<Rightarrow> world \<Rightarrow> result_data outcome" where
  "complete_task E user_id task_id s =
     (case uuid_parse E user_id of
        None \<Rightarrow> (Inl (ValueError ''INVALID_USER_ID: user_id must be a valid UUID''), s)
      | Some user_uuid \<Rightarrow>
          (case uuid_parse E task_id of
             None \<Rightarrow> (Inl (ValueError ''INVALID_TASK_ID: task_id must be a valid UUID''), s)
           | Some task_uuid \<Rightarrow>
               (case select_task s task_uuid of
                  Inl m \<Rightarrow> (Inl (database_error m), s)
                | Inr None \<Rightarrow> (Inl (ValueError ''TASK_NOT_FOUND: Task does not exist''), s)
                | Inr (Some task) \<Rightarrow>
                    if t_user_id task \<noteq> user_uuid
                    then (Inl (ValueError ''TASK_NOT_FOUND: Task belongs to different user''), s)
                    else
                      let task' = task\<lparr>t_completed := True,
                                        t_updated_at := utcnow E (ticks s)\<rparr>
                      in (Inr (no_keys\<lparr>r_task_id := Some (uuid_str E (t_id task')),
                                 r_status := Some ''completed'',
                                 r_title := Some (t_title task'),
                                 r_completed := Some (t_completed task'),
                                 r_updated_at := Some (isoformat E (t_updated_at task'))\<rparr>),
                          s\<lparr>ticks := ticks s + 1,
                            tasks := map (\<lambda>t. if t_id t = task_uuid then task' else t)
                                         (tasks s)\<rparr>))))"

definition delete_task :: "ext \<Rightarrow> string \<Rightarrow> string \<Rightarrow> world \<Rightarrow> result_data outcome" where
  "delete_task E user_id task_id s =
     (case uuid_parse E user_id of
        None \<Rightarrow> (Inl (ValueError ''INVALID_USER_ID: user_id must be a valid UUID''), s)
      | Some user_uuid \<Rightarrow>
          (case uuid_parse E task_id of
             None \<Rightarrow> (Inl (ValueError ''INVALID_TASK_ID: task_id must be a valid UUID''), s)
           | Some task_uuid \<Rightarrow>
               (case select_task s task_uuid of
                  Inl m \<Rightarrow> (Inl (database_error m), s)
                | Inr None \<Rightarrow> (Inl (ValueError ''TASK_NOT_FOUND: Task does not exist''), s)
                | Inr (Some task) \<Rightarrow>
                    if t_user_id task \<noteq> user_uuid
                    then (Inl (ValueError ''TASK_NOT_FOUND: Task belongs to different user''), s)
                    else
                      let task_title = t_title task
                      in (Inr (no_keys\<lparr>r_task_id := Some (uuid_str E task_uuid),
                                 r_status := Some ''deleted'',
                                 r_title := Some task_title\<rparr>),
                          s\<lparr>tasks := filter (\<lambda>t. t_id t \<noteq> task_uuid) (tasks s)\<rparr>))))"

definition update_task ::
  "ext \<Rightarrow> string \<Rightarrow> string \<Rightarrow> string option \<Rightarrow> bool option \<Rightarrow> string option \<Rightarrow> string option
     \<Rightarrow> string option \<Rightarrow> world \<Rightarrow> result_data outcome" where
  "update_task E user_id task_id new_title completed priority due_date tags s =
     (case uuid_parse E user_id of
        None \<Rightarrow> (Inl (ValueError ''INVALID_USER_ID: user_id must be a valid UUID''), s)
      | Some user_uuid \<Rightarrow>
          (case uuid_parse E task_id of
             None \<Rightarrow> (Inl (ValueError ''INVALID_TASK_ID: task_id must be a valid UUID''), s)
           | Some task_uuid \<Rightarrow>
               if new_title \<noteq> None \<and> (the new_title = [] \<or> strip (the new_title) = [])
               then (Inl (ValueError ''INVALID_TITLE: new_title cannot be empty''), s)
               else
                 let new_title' = map_option strip new_title in
                 if new_title' \<noteq> None \<and> length (the new_title') > 500
                 then (Inl (ValueError
                         ''INVALID_TITLE: new_title cannot exceed 500 characters''), s)
                 else if priority \<noteq> None \<and> the priority \<notin> set valid_priorities
                 then (Inl (ValueError
                         ''INVALID_PRIORITY: priority must be one of ['low', 'medium', 'high']''), s)
                 else if due_date \<noteq> None \<and> fromisoformat E (replace_Z (the due_date)) = None
                 then (Inl (ValueError
                         ''INVALID_DUE_DATE: due_date must be ISO format (e.g., 2025-01-25T10:30:00Z)''),
                       s)
                 else
                   let parsed_due_date =
                         (if due_date \<noteq> None then fromisoformat E (replace_Z (the due_date))
                          else None);
                       tags' = map_option strip tags
                   in
                   if tags' \<noteq> None \<and> length (the tags') > 500
                   then (Inl (ValueError ''INVALID_TAGS: tags cannot exceed 500 characters''), s)
                   else
                     (case select_task s task_uuid of
                        Inl m \<Rightarrow> (Inl (database_error m), s)
                      | Inr None \<Rightarrow>
                          (Inl (ValueError ''TASK_NOT_FOUND: Task does not exist''), s)
                      | Inr (Some task) \<Rightarrow>
                          if t_user_id task \<noteq> user_uuid
                          then (Inl (ValueError
                                  ''TASK_NOT_FOUND: Task belongs to different user''), s)
                          else
                            let task1 = (if new_title' \<noteq> None
                                         then task\<lparr>t_title := the new_title'\<rparr> else task);
                                task2 = (if completed \<noteq> None
                                         then task1\<lparr>t_completed := the completed\<rparr> else task1);
                                task3 = (if priority \<noteq> None
                                         then task2\<lparr>t_priority := the priority\<rparr> else task2);
                                task4 = (if due_date \<noteq> None
                                         then task3\<lparr>t_due_date := parsed_due_date\<rparr> else task3);
                                task5 = (if tags' \<noteq> None
                                         then task4\<lparr>t_tags := tags'\<rparr> else task4);
                                task' = task5\<lparr>t_updated_at := utcnow E (ticks s)\<rparr>
                            in (Inr (no_keys\<lparr>r_task_id := Some (uuid_str E (t_id task')),
                                       r_status := Some ''updated'',
                                       r_title := Some (t_title task'),
                                       r_completed := Some (t_completed task'),
                                       r_priority := Some (t_priority task'),
                                       r_due_date := map_option (isoformat E) (t_due_date task'),
                                       r_tags := t_tags task',
                                       r_updated_at := Some (isoformat E (t_updated_at task'))\<rparr>),
                                s\<lparr>ticks := ticks s + 1,
                                  tasks := map (\<lambda>t. if t_id t = task_uuid then task' else t)
                                               (tasks s)\<rparr>))))"

section \<open>The REST surface for tasks\<close>




section \<open>The Conversation Store\<close>

text \<open>\<^verbatim>\<open>ChatService\<close> of \<^verbatim>\<open>src/services/chat_service.py\<close>; it catches no exception.\<close>

record conversation_dict =
  cd_conversation_id :: string
  cd_user_id :: string
  cd_created_at :: datetime

record history_item =
  h_id :: string
  h_role :: string
  h_content :: string
  h_created_at :: datetime

record message_dict =
  md_message_id :: string
  md_conversation_id :: string
  md_role :: string
  md_content :: string
  md_created_at :: datetime

definition create_conversation :: "ext \<Rightarrow> uuid \<Rightarrow> world \<Rightarrow> conversation_dict outcome" where
  "create_conversation E user_id s =
     (let conversation = \<lparr>c_id = uuid4 E (drawn s), c_user_id = user_id,
                           c_created_at = utcnow E (ticks s)\<rparr>;
          s1 = s\<lparr>ticks := ticks s + 1, drawn := drawn s + 1\<rparr>
      in case fault s of
           Some m \<Rightarrow> (Inl (Exception m), s1)
         | None \<Rightarrow>
             (Inr \<lparr>cd_conversation_id = uuid_str E (c_id conversation),
                   cd_user_id = uuid_str E (c_user_id conversation),
                   cd_created_at = c_created_at conversation\<rparr>,
              s1\<lparr>conversations := conversations s @ [conversation]\<rparr>))"

text \<open>
  \<^verbatim>\<open>order_by(Message.created_at.asc())\<close> is a sort on \<open>created_at\<close> alone. SQL leaves the
  order of rows with equal keys open; the model takes the stable sort, which keeps them in
  insertion order.
\<close>

definition as_history_item :: "ext \<Rightarrow> message \<Rightarrow> history_item" where
  "as_history_item E msg =
     \<lparr>h_id = uuid_str E (m_id msg), h_role = m_role msg, h_content = m_content msg,
      h_created_at = m_created_at msg\<rparr>"

definition get_conversation_history ::
  "ext \<Rightarrow> uuid \<Rightarrow> uuid \<Rightarrow> world \<Rightarrow> exn + history_item list option" where
  "get_conversation_history E conversation_id user_id s =
     (case fault s of
        Some m \<Rightarrow> Inl (Exception m)
      | None \<Rightarrow>
          (case filter (\<lambda>c. c_id c = conversation_id \<and> c_user_id c = user_id)
                       (conversations s) of
             [] \<Rightarrow> Inr None
           | [conversation] \<Rightarrow>
               Inr (Some (map (as_history_item E)
                     (sort_key m_created_at
                        (filter (\<lambda>m. m_conversation_id m = conversation_id) (messages s)))))
           | _ \<Rightarrow> Inl (Exception ''Multiple rows were found when one or none was required'')))"

definition save_message :: "ext \<Rightarrow> uuid \<Rightarrow> string \<Rightarrow> string \<Rightarrow> world \<Rightarrow> message_dict outcome" where
  "save_message E conversation_id role content' s =
     (if role \<notin> {''user'', ''assistant''}
      then (Inl (ValueError (''Invalid role: '' @ role @ ''. Must be '' @ [CHR 0x27] @ ''user''
                             @ [CHR 0x27] @ '' or '' @ [CHR 0x27] @ ''assistant'' @ [CHR 0x27])), s)
      else if content' = [] \<or> strip content' = []
      then (Inl (ValueError ''Message content cannot be empty''), s)
      else
        let msg = \<lparr>m_id = uuid4 E (drawn s), m_conversation_id = conversation_id,
                   m_role = role, m_content = strip content',
                   m_created_at = utcnow E (ticks s)\<rparr>;
            s1 = s\<lparr>ticks := ticks s + 1, drawn := drawn s + 1\<rparr>
        in case fault s of
             Some m \<Rightarrow> (Inl (Exception m), s1)
           | None \<Rightarrow>
               (Inr \<lparr>md_message_id = uuid_str E (m_id msg),
                     md_conversation_id = uuid_str E (m_conversation_id msg),
                     md_role = m_role msg, md_content = m_content msg,
                     md_created_at = m_created_at msg\<rparr>,
                s1\<lparr>messages := messages s @ [msg]\<rparr>))"

section \<open>The Agent Orchestrator\<close>

text \<open>\<^verbatim>\<open>AgentService\<close> of \<^verbatim>\<open>src/agent/agent.py\<close>. The debug prints are left out.\<close>

definition get_system_prompt :: string where
  "get_system_prompt =
     ''You are a helpful task management assistant. You help users manage their todo list through natural language.'' @ [CHR 0x0A]
     @ [CHR 0x0A]
     @ ''Available tools:'' @ [CHR 0x0A]
     @ ''1. add_task: Create a new task with a title, optional priority (low/medium/high), due date, and tags'' @ [CHR 0x0A]
     @ ''2. list_tasks: Show all tasks for the user with numbers and full UUIDs'' @ [CHR 0x0A]
     @ ''3. complete_task: Mark a task as completed using the full task_id UUID'' @ [CHR 0x0A]
     @ ''4. delete_task: Delete a task using the full task_id UUID'' @ [CHR 0x0A]
     @ ''5. update_task: Change task properties (title, completed, priority, due_date, tags) using the full task_id UUID'' @ [CHR 0x0A]
     @ [CHR 0x0A]
     @ ''IMPORTANT: For complete_task, delete_task, and update_task, you MUST use the full task_id UUID (not the number). When users say '' @ [CHR 0x22] @ ''complete task 1'' @ [CHR 0x22] @ '', translate it to the full UUID shown in the task list.'' @ [CHR 0x0A]
     @ [CHR 0x0A]
     @ ''When users ask for help, be friendly and helpful. Always confirm what action you took.'' @ [CHR 0x0A]
     @ [CHR 0x0A]
     @ ''Example interactions:'' @ [CHR 0x0A]
     @ ''User: '' @ [CHR 0x22] @ ''Add a high priority task to buy groceries by Friday'' @ [CHR 0x22] @ [CHR 0x0A]
     @ ''Assistant: I'' @ [CHR 0x27] @ ''ve added the task '' @ [CHR 0x27] @ ''Buy groceries'' @ [CHR 0x27] @ '' to your todo list with high priority.'' @ [CHR 0x0A]
     @ [CHR 0x0A]
     @ ''User: '' @ [CHR 0x22] @ ''Show me my tasks'' @ [CHR 0x22] @ [CHR 0x0A]
     @ ''Assistant: Here are your 1 task(s):'' @ [CHR 0x0A]
     @ ''1. '' @ [CHR 0xE2] @ [CHR 0x97] @ [CHR 0x8B] @ '' Buy groceries'' @ [CHR 0x0A]
     @ ''   (ID: abc123de-1234-5678-9012-abcdef123456)'' @ [CHR 0x0A]
     @ [CHR 0x0A]
     @ ''Tip: Refer to tasks by number or use the full ID.'' @ [CHR 0x0A]
     @ [CHR 0x0A]
     @ ''User: '' @ [CHR 0x22] @ ''Complete task 1'' @ [CHR 0x22] @ [CHR 0x0A]
     @ ''Assistant: I'' @ [CHR 0x27] @ ''ve marked '' @ [CHR 0x27] @ ''Buy groceries'' @ [CHR 0x27] @ '' as completed.'' @ [CHR 0x0A]
     @ [CHR 0x0A]
     @ ''User: '' @ [CHR 0x22] @ ''Delete task abc123de-1234-5678-9012-abcdef123456'' @ [CHR 0x22] @ [CHR 0x0A]
     @ ''Assistant: I'' @ [CHR 0x27] @ ''ve deleted the task '' @ [CHR 0x27] @ ''Buy groceries'' @ [CHR 0x27] @ ''.'' @ [CHR 0x0A]
     @ [CHR 0x0A]
     @ ''Keep responses concise and friendly.''"

definition format_messages_for_openai ::
  "string \<Rightarrow> history_item list \<Rightarrow> (string \<times> string) list" where
  "format_messages_for_openai user_message history =
     [(''system'', get_system_prompt)]
     @ map (\<lambda>msg. (h_role msg, h_content msg)) history
     @ [(''user'', user_message)]"

definition tools_map :: "string list" where
  "tools_map = [''add_task'', ''list_tasks'', ''complete_task'', ''delete_task'', ''update_task'']"

fun required_params :: "string \<Rightarrow> string list" where
  "required_params name =
     (if name = ''add_task'' then [''user_id'', ''title'']
      else if name = ''list_tasks'' then [''user_id'']
      else if name = ''complete_task'' then [''user_id'', ''task_id'']
      else if name = ''delete_task'' then [''user_id'', ''task_id'']
      else if name = ''update_task'' then [''user_id'', ''task_id'']
      else [])"

text \<open>The keyword parameters of each tool's signature, \<^verbatim>\<open>session\<close> apart.\<close>

fun signature_of :: "string \<Rightarrow> string list" where
  "signature_of name =
     (if name = ''add_task'' then [''user_id'', ''title'', ''priority'', ''due_date'', ''tags'']
      else if name = ''list_tasks'' then [''user_id'', ''filter_completed'']
      else if name = ''complete_task'' then [''user_id'', ''task_id'']
      else if name = ''delete_task'' then [''user_id'', ''task_id'']
      else if name = ''update_task''
      then [''user_id'', ''task_id'', ''new_title'', ''completed'', ''priority'', ''due_date'',
            ''tags'']
      else [])"

definition quoted :: "string \<Rightarrow> string" where
  \<comment> \<open>\<^verbatim>\<open>repr\<close> of a parameter name\<close>
  "quoted p = [CHR 0x27] @ p @ [CHR 0x27]"

fun join :: "string \<Rightarrow> string list \<Rightarrow> string" where
  "join sep [] = []"
| "join sep [x] = x"
| "join sep (x # y # ys) = x @ sep @ join sep (y # ys)"

definition repr_list :: "string list \<Rightarrow> string" where
  "repr_list ps = ''['' @ join '', '' (map quoted ps) @ '']''"

text \<open>
  Binding \<^verbatim>\<open>**function_args\<close> to a signature. JSON \<^verbatim>\<open>null\<close> is \<^verbatim>\<open>None\<close>. The schemas
  type every parameter as a string or a boolean, and the model assumes those types: a
  value of the other type raises at the call, where Python would carry it into the tool
  body.
\<close>

definition str_arg :: "jobject \<Rightarrow> string \<Rightarrow> exn + string option" where
  "str_arg function_args k =
     (case map_of function_args k of
        None \<Rightarrow> Inr None
      | Some JNull \<Rightarrow> Inr None
      | Some (JStr v) \<Rightarrow> Inr (Some v)
      | Some (JBool b) \<Rightarrow> Inl (Exception (''argument '' @ quoted k @ '' is not a string'')))"

definition bool_arg :: "jobject \<Rightarrow> string \<Rightarrow> exn + bool option" where
  "bool_arg function_args k =
     (case map_of function_args k of
        None \<Rightarrow> Inr None
      | Some JNull \<Rightarrow> Inr None
      | Some (JBool b) \<Rightarrow> Inr (Some b)
      | Some (JStr v) \<Rightarrow> Inl (Exception (''argument '' @ quoted k @ '' is not a boolean'')))"

definition uuid_arg :: "jobject \<Rightarrow> string \<Rightarrow> exn + string" where
  \<comment> \<open>\<^verbatim>\<open>UUID(None)\<close> raises \<^verbatim>\<open>TypeError\<close>, which the tools do not catch\<close>
  "uuid_arg function_args k =
     (case str_arg function_args k of
        Inl e \<Rightarrow> Inl e
      | Inr None \<Rightarrow>
          Inl (Exception ''one of the hex, bytes, bytes_le, fields, or int arguments must be given'')
      | Inr (Some v) \<Rightarrow> Inr v)"

definition call_tool :: "ext \<Rightarrow> string \<Rightarrow> jobject \<Rightarrow> world \<Rightarrow> result_data outcome" where
  "call_tool E function_name function_args s =
     (if ''session'' \<in> set (map fst function_args)
      then (Inl (Exception (function_name
                   @ ''() got multiple values for keyword argument '' @ quoted ''session'')), s)
      else
        case find (\<lambda>k. k \<notin> set (signature_of function_name)) (map fst function_args) of
          Some k \<Rightarrow>
            (Inl (Exception (function_name
                   @ ''() got an unexpected keyword argument '' @ quoted k)), s)
        | None \<Rightarrow>
            if function_name = ''add_task'' then
              (case (uuid_arg function_args ''user_id'', str_arg function_args ''title'',
                     str_arg function_args ''priority'', str_arg function_args ''due_date'',
                     str_arg function_args ''tags'') of
                 (Inr user_id, Inr title, Inr priority, Inr due_date, Inr tags) \<Rightarrow>
                   add_task E user_id title
                     (if ''priority'' \<in> set (map fst function_args) then priority
                      else Some ''medium'')
                     due_date tags s
               | (Inl e, _) \<Rightarrow> (Inl e, s)
               | (_, Inl e, _) \<Rightarrow> (Inl e, s)
               | (_, _, Inl e, _) \<Rightarrow> (Inl e, s)
               | (_, _, _, Inl e, _) \<Rightarrow> (Inl e, s)
               | (_, _, _, _, Inl e) \<Rightarrow> (Inl e, s))
            else if function_name = ''list_tasks'' then
              (case (uuid_arg function_args ''user_id'',
                     bool_arg function_args ''filter_completed'') of
                 (Inr user_id, Inr filter_completed) \<Rightarrow> list_tasks E user_id filter_completed s
               | (Inl e, _) \<Rightarrow> (Inl e, s)
               | (_, Inl e) \<Rightarrow> (Inl e, s))
            else if function_name = ''complete_task'' then
              (case (uuid_arg function_args ''user_id'', uuid_arg function_args ''task_id'') of
                 (Inr user_id, Inr task_id) \<Rightarrow> complete_task E user_id task_id s
               | (Inl e, _) \<Rightarrow> (Inl e, s)
               | (_, Inl e) \<Rightarrow> (Inl e, s))
            else if function_name = ''delete_task'' then
              (case (uuid_arg function_args ''user_id'', uuid_arg function_args ''task_id'') of
                 (Inr user_id, Inr task_id) \<Rightarrow> delete_task E user_id task_id s
               | (Inl e, _) \<Rightarrow> (Inl e, s)
               | (_, Inl e) \<Rightarrow> (Inl e, s))
            else
              (case (uuid_arg function_args ''user_id'', uuid_arg function_args ''task_id'',
                     str_arg function_args ''new_title'', bool_arg function_args ''completed'',
                     str_arg function_args ''priority'', str_arg function_args ''due_date'',
                     str_arg function_args ''tags'') of
                 (Inr user_id, Inr task_id, Inr new_title, Inr completed, Inr priority,
                  Inr due_date, Inr tags) \<Rightarrow>
                   update_task E user_id task_id new_title completed priority due_date tags s
               | (Inl e, _) \<Rightarrow> (Inl e, s)
               | (_, Inl e, _) \<Rightarrow> (Inl e, s)
               | (_, _, Inl e, _) \<Rightarrow> (Inl e, s)
               | (_, _, _, Inl e, _) \<Rightarrow> (Inl e, s)
               | (_, _, _, _, Inl e, _) \<Rightarrow> (Inl e, s)
               | (_, _, _, _, _, Inl e, _) \<Rightarrow> (Inl e, s)
               | (_, _, _, _, _, _, Inl e) \<Rightarrow> (Inl e, s)))"

definition execute_tool :: "ext \<Rightarrow> string \<Rightarrow> jobject \<Rightarrow> world \<Rightarrow> result_data outcome" where
  "execute_tool E function_name function_args s =
     (if function_name \<notin> set tools_map
      then (Inl (ValueError (''Unknown tool: '' @ function_name)), s)
      else
        let missing = filter (\<lambda>p. p \<notin> set (map fst function_args))
                             (required_params function_name)
        in if missing \<noteq> []
           then (Inl (ValueError (''Missing required parameters: '' @ repr_list missing)), s)
           else call_tool E function_name function_args s)"

subsection \<open>Rendering the reply\<close>

definition digit_char :: "nat \<Rightarrow> char" where
  "digit_char n = char_of (48 + n)"

fun str_nat :: "nat \<Rightarrow> string" where
  "str_nat n = (if n < 10 then [digit_char n] else str_nat (n div 10) @ [digit_char (n mod 10)])"

definition str_opt :: "string option \<Rightarrow> string" where
  \<comment> \<open>an optional string inside an f-string\<close>
  "str_opt v = (case v of None \<Rightarrow> ''None'' | Some x \<Rightarrow> x)"

definition check_mark :: string where
  \<comment> \<open>U+2713 in UTF-8\<close>
  "check_mark = [CHR 0xE2, CHR 0x9C, CHR 0x93]"

definition white_circle :: string where
  \<comment> \<open>U+25CB in UTF-8\<close>
  "white_circle = [CHR 0xE2, CHR 0x97, CHR 0x8B]"

definition format_task_for_display :: "nat \<Rightarrow> task_item \<Rightarrow> string" where
  "format_task_for_display index task =
     (let status = (if i_completed task then check_mark else white_circle);
          title = i_title task;
          task_id = i_task_id task;
          details =
            (if i_priority task \<noteq> [] \<and> i_priority task \<noteq> ''medium''
             then [''Priority: '' @ i_priority task] else [])
            @ (case i_due_date task of
                 None \<Rightarrow> []
               | Some d \<Rightarrow> if d \<noteq> [] then [''Due: '' @ d] else [])
            @ (case i_tags task of
                 None \<Rightarrow> []
               | Some g \<Rightarrow> if g \<noteq> [] then [''Tags: '' @ g] else [])
      in if details \<noteq> []
         then str_nat (index + 1) @ ''. '' @ status @ '' '' @ title @ [CHR 0x0A]
              @ ''   (ID: '' @ task_id @ '')'' @ [CHR 0x0A]
              @ ''   ['' @ join '' | '' details @ '']''
         else str_nat (index + 1) @ ''. '' @ status @ '' '' @ title @ [CHR 0x0A]
              @ ''   (ID: '' @ task_id @ '')'')"

definition generate_response_from_result :: "string \<Rightarrow> result_data \<Rightarrow> string" where
  "generate_response_from_result function_name result_data =
     (if function_name = ''add_task'' then
        (if r_status result_data = Some ''created''
         then ''I'' @ [CHR 0x27] @ ''ve added the task '' @ [CHR 0x27]
              @ str_opt (r_title result_data) @ [CHR 0x27] @ '' to your todo list.''
         else ''I tried to add the task but encountered an issue.'')
      else if function_name = ''list_tasks'' then
        (let tasks = (case r_tasks result_data of None \<Rightarrow> [] | Some ts \<Rightarrow> ts);
             count = (case r_count result_data of None \<Rightarrow> 0 | Some n \<Rightarrow> n)
         in if count = 0
            then ''You don'' @ [CHR 0x27] @ ''t have any tasks yet. You can ask me to add one!''
            else
              let task_list = join [CHR 0x0A]
                    (map (\<lambda>(i, task). format_task_for_display i task)
                         (zip [0..<length tasks] tasks))
              in ''Here are your '' @ str_nat count @ '' task(s):'' @ [CHR 0x0A] @ task_list
                 @ [CHR 0x0A, CHR 0x0A]
                 @ ''Tip: Refer to tasks by number or use the full ID.'')
      else if function_name = ''complete_task'' then
        (if r_status result_data = Some ''completed''
         then ''I'' @ [CHR 0x27] @ ''ve marked the task '' @ [CHR 0x27]
              @ str_opt (r_title result_data) @ [CHR 0x27] @ '' as completed.''
         else ''I tried to complete the task but encountered an issue.'')
      else if function_name = ''delete_task'' then
        (if r_status result_data = Some ''deleted''
         then ''I'' @ [CHR 0x27] @ ''ve deleted the task '' @ [CHR 0x27]
              @ str_opt (r_title result_data) @ [CHR 0x27] @ ''.''
         else ''I tried to delete the task but encountered an issue.'')
      else if function_name = ''update_task'' then
        (if r_status result_data = Some ''updated''
         then ''I'' @ [CHR 0x27] @ ''ve updated the task to: '' @ [CHR 0x27]
              @ str_opt (r_title result_data) @ [CHR 0x27] @ ''.''
         else ''I tried to update the task but encountered an issue.'')
      else ''I'' @ [CHR 0x27] @ ''ve processed your request.'')"

subsection \<open>One turn\<close>

text \<open>
  \<^verbatim>\<open>_process_openai_response\<close>: only the first tool call is read; \<^verbatim>\<open>user_id\<close> is
  written into the arguments before the tool runs; an exception of the tool becomes the
  reply.
\<close>

definition process_openai_response :: "ext \<Rightarrow> llm_message \<Rightarrow> uuid \<Rightarrow> world \<Rightarrow> string outcome" where
  "process_openai_response E message user_id s =
     (case msg_tool_calls message of
        tool_call # _ \<Rightarrow>
          (case tc_arguments tool_call of
             Inl m \<Rightarrow> (Inl (Exception m), s)
           | Inr function_args \<Rightarrow>
               let function_args' =
                     AList.update ''user_id'' (JStr (uuid_str E user_id)) function_args
               in (case execute_tool E (tc_name tool_call) function_args' s of
                     (Inr result, s') \<Rightarrow>
                       (Inr (generate_response_from_result (tc_name tool_call) result), s')
                   | (Inl e, s') \<Rightarrow>
                       (Inr (''Sorry, I encountered an error: '' @ str_exn e), s')))
      | [] \<Rightarrow>
          (Inr (case msg_content message of
                  None \<Rightarrow> ''I understand. How can I help you with your tasks?''
                | Some c \<Rightarrow>
                    if c = [] then ''I understand. How can I help you with your tasks?'' else c),
           s))"

record agent_response =
  ar_assistant_message :: string
  ar_history :: "history_item list"
  ar_conversation_id :: "string option"

text \<open>
  \<^verbatim>\<open>process_message\<close>. The state reached when an exception leaves the function is kept:
  what the tool committed stays committed.
\<close>

definition process_message ::
  "ext \<Rightarrow> string \<Rightarrow> uuid \<Rightarrow> uuid option \<Rightarrow> world \<Rightarrow> agent_response outcome" where
  "process_message E user_message user_id conversation_id s =
     (case (case conversation_id of
              None \<Rightarrow> Inr (Some [])
            | Some cid \<Rightarrow> get_conversation_history E cid user_id s) of
        Inl e \<Rightarrow> (Inl e, s)
      | Inr None \<Rightarrow> (Inl (Exception (quoted ''NoneType'' @ '' object is not iterable'')), s)
      | Inr (Some history) \<Rightarrow>
          let msgs = format_messages_for_openai user_message history in
          (case (case completions_create E msgs of
                   ApiError m \<Rightarrow>
                     (Inr (''I encountered an error processing your request: '' @ m), s)
                 | Completion message \<Rightarrow> process_openai_response E message user_id s) of
             (Inl e, s1) \<Rightarrow> (Inl e, s1)
           | (Inr assistant_message, s1) \<Rightarrow>
               (case conversation_id of
                  None \<Rightarrow>
                    (Inr \<lparr>ar_assistant_message = assistant_message, ar_history = history,
                          ar_conversation_id = None\<rparr>, s1)
                | Some cid \<Rightarrow>
                    (case save_message E cid ''user'' user_message s1 of
                       (Inl e, s2) \<Rightarrow> (Inl e, s2)
                     | (Inr _, s2) \<Rightarrow>
                         (case save_message E cid ''assistant'' assistant_message s2 of
                            (Inl e, s3) \<Rightarrow> (Inl e, s3)
                          | (Inr _, s3) \<Rightarrow>
                              (Inr \<lparr>ar_assistant_message = assistant_message,
                                    ar_history = history,
                                    ar_conversation_id = Some (uuid_str E cid)\<rparr>, s3))))))"

section \<open>The Chat Endpoint\<close>

text \<open>
  \<^verbatim>\<open>POST /api/v1/chat\<close> of \<^verbatim>\<open>src/api/chat.py\<close>. The request model bounds the message
  to 1..10000 characters, which FastAPI answers with 422 before the handler runs.
\<close>

record chat_request =
  rq_message :: string
  rq_conversation_id :: "string option"

record chat_response =
  rs_conversation_id :: string
  rs_user_message :: string
  rs_assistant_message :: string
  rs_history :: "history_item list"

definition chat :: "ext \<Rightarrow> chat_request \<Rightarrow> uuid \<Rightarrow> world \<Rightarrow> chat_response outcome" where
  "chat E request user_id s =
     (if length (rq_message request) < 1 \<or> length (rq_message request) > 10000
      then (Inl (HTTPException 422 ''Unprocessable Entity''), s)
      else
        case (if rq_conversation_id request \<noteq> None \<and> the (rq_conversation_id request) \<noteq> []
              then
                (case uuid_parse E (the (rq_conversation_id request)) of
                   None \<Rightarrow> (Inl (ValueError ''badly formed hexadecimal UUID string''), s)
                 | Some conversation_id \<Rightarrow>
                     (case get_conversation_history E conversation_id user_id s of
                        Inl e \<Rightarrow> (Inl e, s)
                      | Inr None \<Rightarrow>
                          (Inl (HTTPException 404 ''Conversation not found or access denied''), s)
                      | Inr (Some history) \<Rightarrow> (Inr conversation_id, s)))
              else
                (case create_conversation E user_id s of
                   (Inl e, s1) \<Rightarrow> (Inl e, s1)
                 | (Inr conversation_result, s1) \<Rightarrow>
                     (case uuid_parse E (cd_conversation_id conversation_result) of
                        None \<Rightarrow> (Inl (ValueError ''badly formed hexadecimal UUID string''), s1)
                      | Some conversation_id \<Rightarrow> (Inr conversation_id, s1)))) of
          (Inl e, s1) \<Rightarrow> (Inl e, s1)
        | (Inr conversation_id, s1) \<Rightarrow>
            (case process_message E (rq_message request) user_id (Some conversation_id) s1 of
               (Inl e, s2) \<Rightarrow> (Inl e, s2)
             | (Inr agent_response, s2) \<Rightarrow>
                 (case get_conversation_history E conversation_id user_id s2 of
                    Inl e \<Rightarrow> (Inl e, s2)
                  | Inr None \<Rightarrow>
                      (Inl (Exception ''history: Input should be a valid list''), s2)
                  | Inr (Some full_history) \<Rightarrow>
                      (Inr \<lparr>rs_conversation_id = uuid_str E conversation_id,
                            rs_user_message = rq_message request,
                            rs_assistant_message = ar_assistant_message agent_response,
                            rs_history = full_history\<rparr>, s2))))"

section \<open>Vocabulary of the claims\<close>












section \<open>A concrete instance, for running the model\<close>

text \<open>
  \<open>ext0\<close> formats a UUID as Python does and reads the canonical form back; it knows one
  date, its clock advances by one microsecond per reading, and its language model is
  unreachable.
\<close>

definition hexdigit :: "nat \<Rightarrow> char" where
  "hexdigit n = ''0123456789abcdef'' ! n"

definition hex32 :: "uuid \<Rightarrow> string" where
  "hex32 u = map (\<lambda>i. hexdigit (unat (and (drop_bit (4 * (31 - i)) u) 15))) [0..<32]"

definition str_of_uuid :: "uuid \<Rightarrow> string" where
  "str_of_uuid u =
     (let h = hex32 u
      in take 8 h @ ''-'' @ take 4 (drop 8 h) @ ''-'' @ take 4 (drop 12 h) @ ''-''
         @ take 4 (drop 16 h) @ ''-'' @ drop 20 h)"

definition hexval :: "char \<Rightarrow> nat option" where
  "hexval c =
     (let n = (of_char c :: nat)
      in if 48 \<le> n \<and> n \<le> 57 then Some (n - 48)
         else if 97 \<le> n \<and> n \<le> 102 then Some (n - 87)
         else if 65 \<le> n \<and> n \<le> 70 then Some (n - 55)
         else None)"

definition uuid_of_str :: "string \<Rightarrow> uuid option" where
  "uuid_of_str s =
     (let h = filter (\<lambda>c. c \<noteq> CHR ''-'') s
      in if length h = 32 \<and> list_all (\<lambda>c. hexval c \<noteq> None) h
         then Some (foldl (\<lambda>a c. 16 * a + of_nat (the (hexval c))) 0 h)
         else None)"

definition ext0 :: ext where
  "ext0 = \<lparr>uuid_parse = uuid_of_str, uuid_str = str_of_uuid,
           fromisoformat = (\<lambda>s. if s = ''2025-01-25T10:30:00+00:00''
                                then Some 1737801000000000 else None),
           isoformat = (\<lambda>d. if d = 1737801000000000 then ''2025-01-25T10:30:00+00:00''
                            else ''1970-01-01T00:00:00''),
           utcnow = (\<lambda>n. 1000 + int n),
           uuid4 = (\<lambda>n. 4096 + of_nat n),
           completions_create = (\<lambda>msgs. ApiError ''Connection error.'')\<rparr>"

definition alice :: string where
  "alice = ''00000000-0000-0000-0000-00000000000a''"


definition task1 :: string where
  "task1 = ''00000000-0000-0000-0000-000000000001''"

definition milk :: task where
  "milk = \<lparr>t_id = 1, t_user_id = 10, t_title = ''Buy milk'', t_completed = False,
           t_priority = ''medium'', t_due_date = None, t_tags = None,
           t_created_at = 900, t_updated_at = 900\<rparr>"

definition w0 :: world where
  "w0 = \<lparr>tasks = [milk], conversations = [\<lparr>c_id = 7, c_user_id = 10, c_created_at = 950\<rparr>],
         messages = [], fault = None, ticks = 0, drawn = 0\<rparr>"

definition conv7 :: string where
  "conv7 = ''00000000-0000-0000-0000-000000000007''"

text \<open>A clock that is set back by one microsecond between two readings.\<close>

definition ext_set_back :: ext where
  "ext_set_back = ext0\<lparr>utcnow := (\<lambda>n. 1000 - int n)\<rparr>"

text \<open>
  The rows of the message table are in time order when their \<^verbatim>\<open>created_at\<close> values do not
  decrease along the insertion order and none lies after the next reading of the clock.
\<close>

definition messages_in_time_order :: "ext \<Rightarrow> world \<Rightarrow> bool" where
  "messages_in_time_order E s \<longleftrightarrow>
     sorted (map m_created_at (messages s))
     \<and> list_all (\<lambda>m. m_created_at m \<le> utcnow E (ticks s)) (messages s)"

definition clock_never_set_back :: "ext \<Rightarrow> bool" where
  "clock_never_set_back E \<longleftrightarrow> (\<forall>i j. i \<le> j \<longrightarrow> utcnow E i \<le> utcnow E j)"

text \<open>
  A reply of the language model with one tool call, for stating what the orchestrator does
  with it.
\<close>

definition calls :: "string \<Rightarrow> jobject \<Rightarrow> llm_message" where
  "calls name function_args =
     \<lparr>msg_content = None,
      msg_tool_calls = [\<lparr>tc_name = name, tc_arguments = Inr function_args\<rparr>]\<rparr>"


text \<open>The rows of the task table that belong to other owners than \<open>u\<close>.\<close>

definition others_tasks :: "uuid \<Rightarrow> world \<Rightarrow> task list" where
  "others_tasks u s = filter (\<lambda>t. t_user_id t \<noteq> u) (tasks s)"



section \<open>Lemmas on the task table\<close>

lemma filter_singleD:
  assumes "filter P xs = [t]"
  shows "P t" and "\<forall>x\<in>set xs. P x \<longrightarrow> x = t"
proof -
  have "set (filter P xs) = {t}" using assms by simp
  then have e: "{x \<in> set xs. P x} = {t}" by simp
  from e show "P t" by blast
  from e show "\<forall>x\<in>set xs. P x \<longrightarrow> x = t" by blast
qed

lemma select_task_unique:
  "fault s = None \<Longrightarrow> filter (\<lambda>x. t_id x = tid) (tasks s) = [t]
     \<Longrightarrow> select_task s tid = Inr (Some t)"
  by (simp add: select_task_def)

lemma select_task_SomeD:
  "select_task s tid = Inr (Some t)
     \<Longrightarrow> fault s = None \<and> filter (\<lambda>x. t_id x = tid) (tasks s) = [t]"
  by (auto simp: select_task_def split: option.splits list.splits)

lemma filter_map_replace:
  "filter (\<lambda>x. t_id x = tid) xs = [t] \<Longrightarrow> t_id t' = tid \<Longrightarrow>
   filter (\<lambda>x. t_id x = tid) (map (\<lambda>x. if t_id x = tid then t' else x) xs) = [t']"
proof (induction xs arbitrary: t)
  case Nil
  then show ?case by simp
next
  case (Cons a xs)
  show ?case
  proof (cases "t_id a = tid")
    case True
    with Cons.prems have e: "filter (\<lambda>x. t_id x = tid) xs = []" by simp
    then have "\<forall>x\<in>set xs. t_id x \<noteq> tid" by (simp add: filter_empty_conv)
    then have "filter (\<lambda>x. t_id x = tid) (map (\<lambda>x. if t_id x = tid then t' else x) xs) = []"
      by (simp add: filter_empty_conv)
    with True Cons.prems show ?thesis by simp
  next
    case False
    with Cons show ?thesis by simp
  qed
qed

lemma complete_task_owned:
  assumes "uuid_parse E user_id = Some u" and "uuid_parse E task_id = Some tid"
    and "fault s = None" and "filter (\<lambda>x. t_id x = tid) (tasks s) = [t]"
    and "t_user_id t = u"
  shows "complete_task E user_id task_id s =
      (Inr (no_keys\<lparr>r_task_id := Some (uuid_str E (t_id t)), r_status := Some ''completed'',
                  r_title := Some (t_title t), r_completed := Some True,
                  r_updated_at := Some (isoformat E (utcnow E (ticks s)))\<rparr>),
       s\<lparr>ticks := ticks s + 1,
         tasks := map (\<lambda>x. if t_id x = tid
                            then t\<lparr>t_completed := True, t_updated_at := utcnow E (ticks s)\<rparr>
                            else x) (tasks s)\<rparr>)"
  using assms by (simp add: complete_task_def select_task_unique Let_def)

section \<open>Idempotent completion\<close>

text \<open>
  Claim C6. For an owner and a task of theirs, \<^verbatim>\<open>complete_task\<close> called twice succeeds both
  times with status \<^verbatim>\<open>completed\<close> and \<^verbatim>\<open>completed = true\<close>; the stored task is completed
  after each call, and the second call changes nothing in the task table but the
  \<^verbatim>\<open>updated_at\<close> of that task.
\<close>

theorem complete_task_idempotent:
  assumes "uuid_parse E user_id = Some u" and "uuid_parse E task_id = Some tid"
    and "fault s = None" and "filter (\<lambda>x. t_id x = tid) (tasks s) = [t]"
    and "t_user_id t = u"
    and "complete_task E user_id task_id s = (r1, s1)"
    and "complete_task E user_id task_id s1 = (r2, s2)"
  shows "\<exists>d1 d2. r1 = Inr d1 \<and> r2 = Inr d2
           \<and> r_status d1 = Some ''completed'' \<and> r_completed d1 = Some True
           \<and> r_status d2 = Some ''completed'' \<and> r_completed d2 = Some True
           \<and> filter (\<lambda>x. t_id x = tid) (tasks s1)
                = [t\<lparr>t_completed := True, t_updated_at := utcnow E (ticks s)\<rparr>]
           \<and> filter (\<lambda>x. t_id x = tid) (tasks s2)
                = [t\<lparr>t_completed := True, t_updated_at := utcnow E (ticks s + 1)\<rparr>]
           \<and> tasks s2 = map (\<lambda>x. if t_id x = tid
                                    then x\<lparr>t_updated_at := utcnow E (ticks s1)\<rparr> else x)
                              (tasks s1)"
proof -
  let ?t1 = "t\<lparr>t_completed := True, t_updated_at := utcnow E (ticks s)\<rparr>"
  let ?t2 = "?t1\<lparr>t_completed := True, t_updated_at := utcnow E (ticks s1)\<rparr>"
  have id: "t_id t = tid" using assms(4) by (rule filter_singleD(1))
  have c1: "complete_task E user_id task_id s =
      (Inr (no_keys\<lparr>r_task_id := Some (uuid_str E (t_id t)), r_status := Some ''completed'',
                  r_title := Some (t_title t), r_completed := Some True,
                  r_updated_at := Some (isoformat E (utcnow E (ticks s)))\<rparr>),
       s\<lparr>ticks := ticks s + 1,
         tasks := map (\<lambda>x. if t_id x = tid then ?t1 else x) (tasks s)\<rparr>)"
    using assms(1-5) by (rule complete_task_owned)
  with assms(6) have s1: "s1 = s\<lparr>ticks := ticks s + 1,
         tasks := map (\<lambda>x. if t_id x = tid then ?t1 else x) (tasks s)\<rparr>"
    and r1: "r1 = Inr (no_keys\<lparr>r_task_id := Some (uuid_str E (t_id t)),
                  r_status := Some ''completed'',
                  r_title := Some (t_title t), r_completed := Some True,
                  r_updated_at := Some (isoformat E (utcnow E (ticks s)))\<rparr>)"
    by simp_all
  have f1: "filter (\<lambda>x. t_id x = tid) (tasks s1) = [?t1]"
    using filter_map_replace[OF assms(4), of ?t1] id by (simp add: s1)
  have fl: "fault s1 = None" using assms(3) by (simp add: s1)
  have c2: "complete_task E user_id task_id s1 =
      (Inr (no_keys\<lparr>r_task_id := Some (uuid_str E (t_id ?t1)), r_status := Some ''completed'',
                  r_title := Some (t_title ?t1), r_completed := Some True,
                  r_updated_at := Some (isoformat E (utcnow E (ticks s1)))\<rparr>),
       s1\<lparr>ticks := ticks s1 + 1,
          tasks := map (\<lambda>x. if t_id x = tid then ?t2 else x) (tasks s1)\<rparr>)"
    using assms(1,2) fl f1 by (rule complete_task_owned) (simp add: assms(5))
  with assms(7) have s2: "s2 = s1\<lparr>ticks := ticks s1 + 1,
          tasks := map (\<lambda>x. if t_id x = tid then ?t2 else x) (tasks s1)\<rparr>"
    and r2: "r2 = Inr (no_keys\<lparr>r_task_id := Some (uuid_str E (t_id ?t1)),
                  r_status := Some ''completed'',
                  r_title := Some (t_title ?t1), r_completed := Some True,
                  r_updated_at := Some (isoformat E (utcnow E (ticks s1)))\<rparr>)"
    by simp_all
  have f2: "filter (\<lambda>x. t_id x = tid) (tasks s2) = [?t2]"
    using filter_map_replace[OF f1, of ?t2] id by (simp add: s2)
  have t1: "ticks s1 = ticks s + 1" by (simp add: s1)
  have all1: "\<forall>x\<in>set (tasks s1). t_id x = tid \<longrightarrow> x = ?t1"
    using filter_singleD(2)[OF f1] .
  have m: "tasks s2 = map (\<lambda>x. if t_id x = tid
                                 then x\<lparr>t_updated_at := utcnow E (ticks s1)\<rparr> else x) (tasks s1)"
    unfolding s2 using all1 by (auto intro!: map_cong)
  show ?thesis
    using r1 r2 f1 f2 m t1 by (simp add: no_keys_def)
qed

theorem complete_task_idempotent_witness:
  "uuid_parse ext0 alice = Some 10 \<and> uuid_parse ext0 task1 = Some 1 \<and> fault w0 = None
   \<and> filter (\<lambda>x. t_id x = 1) (tasks w0) = [milk] \<and> t_user_id milk = 10
   \<and> (\<exists>d1 d2. fst (complete_task ext0 alice task1 w0) = Inr d1
        \<and> fst (complete_task ext0 alice task1 (snd (complete_task ext0 alice task1 w0))) = Inr d2
        \<and> r_completed d1 = Some True \<and> r_completed d2 = Some True
        \<and> filter (\<lambda>x. t_id x = 1)
             (tasks (snd (complete_task ext0 alice task1
                            (snd (complete_task ext0 alice task1 w0)))))
            = [milk\<lparr>t_completed := True, t_updated_at := utcnow ext0 (ticks w0 + 1)\<rparr>])"
proof -
  have h1: "uuid_parse ext0 alice = Some 10" by code_simp
  have h2: "uuid_parse ext0 task1 = Some 1" by code_simp
  have h3: "fault w0 = None" by (simp add: w0_def)
  have h4: "filter (\<lambda>x. t_id x = 1) (tasks w0) = [milk]" by (simp add: w0_def milk_def)
  have h5: "t_user_id milk = 10" by (simp add: milk_def)
  from complete_task_idempotent[OF h1 h2 h3 h4 h5 surjective_pairing surjective_pairing]
  show ?thesis using h1 h2 h3 h4 h5 by blast
qed

section \<open>The frame of an update\<close>

lemma update_task_InrD:
  assumes "update_task E user_id task_id new_title completed priority due_date tags s
             = (Inr d, s')"
  shows "\<exists>u tid t. uuid_parse E user_id = Some u \<and> uuid_parse E task_id = Some tid
     \<and> select_task s tid = Inr (Some t) \<and> t_user_id t = u
     \<and> s' = s\<lparr>ticks := ticks s + 1,
              tasks := map (\<lambda>x. if t_id x = tid
                 then t\<lparr>t_title := (case new_title of None \<Rightarrow> t_title t | Some n \<Rightarrow> strip n),
                        t_completed := (case completed of None \<Rightarrow> t_completed t | Some c \<Rightarrow> c),
                        t_priority := (case priority of None \<Rightarrow> t_priority t | Some p \<Rightarrow> p),
                        t_due_date := (case due_date of None \<Rightarrow> t_due_date t
                                        | Some x \<Rightarrow> fromisoformat E (replace_Z x)),
                        t_tags := (case tags of None \<Rightarrow> t_tags t | Some g \<Rightarrow> Some (strip g)),
                        t_updated_at := utcnow E (ticks s)\<rparr>
                 else x) (tasks s)\<rparr>"
proof -
  from assms obtain u where u: "uuid_parse E user_id = Some u"
    by (cases "uuid_parse E user_id") (simp_all add: update_task_def)
  from assms u obtain tid where tid: "uuid_parse E task_id = Some tid"
    by (cases "uuid_parse E task_id") (simp_all add: update_task_def)
  from assms u tid obtain t where t: "select_task s tid = Inr (Some t)"
    by (cases "select_task s tid")
       (auto simp: update_task_def Let_def split: if_splits option.splits)
  from assms u tid t have own: "t_user_id t = u"
    by (auto simp: update_task_def Let_def split: if_splits)
  from assms u tid t own have "s' = s\<lparr>ticks := ticks s + 1,
              tasks := map (\<lambda>x. if t_id x = tid
                 then t\<lparr>t_title := (case new_title of None \<Rightarrow> t_title t | Some n \<Rightarrow> strip n),
                        t_completed := (case completed of None \<Rightarrow> t_completed t | Some c \<Rightarrow> c),
                        t_priority := (case priority of None \<Rightarrow> t_priority t | Some p \<Rightarrow> p),
                        t_due_date := (case due_date of None \<Rightarrow> t_due_date t
                                        | Some x \<Rightarrow> fromisoformat E (replace_Z x)),
                        t_tags := (case tags of None \<Rightarrow> t_tags t | Some g \<Rightarrow> Some (strip g)),
                        t_updated_at := utcnow E (ticks s)\<rparr>
                 else x) (tasks s)\<rparr>"
    by (cases new_title; cases completed; cases priority; cases due_date; cases tags)
       (auto simp: update_task_def Let_def split: if_splits)
  with u tid t own show ?thesis by blast
qed



section \<open>Another owner's task\<close>

lemma strip_Nil: "strip [] = []"
  by (simp add: strip_def)




section \<open>The order of validation\<close>




















section \<open>The Conversation Store\<close>

text \<open>
  Claim C10. With a working store, \<^verbatim>\<open>get_conversation_history\<close> returns \<^verbatim>\<open>None\<close>
  whenever no conversation of that id belongs to the caller, be it that none has the id or
  that the one that has it belongs to another owner; the chat endpoint then raises 404,
  the same exception in both cases, and hands the state back as it got it: nothing was
  persisted.
\<close>

theorem conversation_not_found:
  assumes "fault s = None"
    and "\<forall>c\<in>set (conversations s). c_id c = cid \<longrightarrow> c_user_id c \<noteq> user_id"
    and "uuid_parse E conversation_id = Some cid" and "conversation_id \<noteq> []"
    and "1 \<le> length msg" and "length msg \<le> 10000"
  shows "get_conversation_history E cid user_id s = Inr None
     \<and> chat E \<lparr>rq_message = msg, rq_conversation_id = Some conversation_id\<rparr> user_id s
         = (Inl (HTTPException 404 ''Conversation not found or access denied''), s)"
proof -
  have "filter (\<lambda>c. c_id c = cid \<and> c_user_id c = user_id) (conversations s) = []"
    using assms(2) by (auto simp: filter_empty_conv)
  then have h: "get_conversation_history E cid user_id s = Inr None"
    using assms(1) by (simp add: get_conversation_history_def)
  have "chat E \<lparr>rq_message = msg, rq_conversation_id = Some conversation_id\<rparr> user_id s
         = (Inl (HTTPException 404 ''Conversation not found or access denied''), s)"
    using assms(3-6) h by (cases msg) (simp_all add: chat_def)
  with h show ?thesis by simp
qed

theorem conversation_not_found_witness:
  "fault w0 = None
   \<and> \<not> (\<exists>c\<in>set (conversations w0). c_id c = 7 \<and> c_user_id c = 11)
   \<and> \<not> (\<exists>c\<in>set (conversations w0). c_id c = 1 \<and> c_user_id c = 10)
   \<and> uuid_parse ext0 conv7 = Some 7 \<and> uuid_parse ext0 task1 = Some 1
   \<and> get_conversation_history ext0 7 11 w0 = Inr None
   \<and> get_conversation_history ext0 1 10 w0 = Inr None
   \<and> chat ext0 \<lparr>rq_message = ''Show my tasks'', rq_conversation_id = Some conv7\<rparr> 11 w0
       = (Inl (HTTPException 404 ''Conversation not found or access denied''), w0)
   \<and> chat ext0 \<lparr>rq_message = ''Show my tasks'', rq_conversation_id = Some task1\<rparr> 10 w0
       = (Inl (HTTPException 404 ''Conversation not found or access denied''), w0)"
proof -
  have h1: "fault w0 = None" by (simp add: w0_def)
  have h2: "\<forall>c\<in>set (conversations w0). c_id c = 7 \<longrightarrow> c_user_id c \<noteq> 11"
    by (simp add: w0_def)
  have h3: "\<forall>c\<in>set (conversations w0). c_id c = 1 \<longrightarrow> c_user_id c \<noteq> 10"
    by (simp add: w0_def)
  have h4: "uuid_parse ext0 conv7 = Some 7" by code_simp
  have h5: "uuid_parse ext0 task1 = Some 1" by code_simp
  have n1: "conv7 \<noteq> []" by (simp add: conv7_def)
  have n2: "task1 \<noteq> []" by (simp add: task1_def)
  have l1: "1 \<le> length ''Show my tasks''" by simp
  have l2: "length ''Show my tasks'' \<le> 10000" by simp
  have g2: "\<not> (\<exists>c\<in>set (conversations w0). c_id c = 7 \<and> c_user_id c = 11)"
    by (simp add: w0_def)
  have g3: "\<not> (\<exists>c\<in>set (conversations w0). c_id c = 1 \<and> c_user_id c = 10)"
    by (simp add: w0_def)
  note a = conversation_not_found[OF h1 h2 h4 n1 l1 l2]
  note b = conversation_not_found[OF h1 h3 h5 n2 l1 l2]
  show ?thesis
    by (intro conjI h1 g2 g3 h4 h5 conjunct1[OF a] conjunct1[OF b] conjunct2[OF a]
          conjunct2[OF b])
qed

lemma save_message_ok:
  assumes "role \<in> {''user'', ''assistant''}" and "strip text \<noteq> []" and "fault s = None"
  shows "save_message E cid role text s =
     (Inr \<lparr>md_message_id = uuid_str E (uuid4 E (drawn s)), md_conversation_id = uuid_str E cid,
           md_role = role, md_content = strip text, md_created_at = utcnow E (ticks s)\<rparr>,
      s\<lparr>ticks := ticks s + 1, drawn := drawn s + 1,
        messages := messages s @ [\<lparr>m_id = uuid4 E (drawn s), m_conversation_id = cid,
                                   m_role = role, m_content = strip text,
                                   m_created_at = utcnow E (ticks s)\<rparr>]\<rparr>)"
proof -
  from assms(2) have "text \<noteq> []" by (auto simp: strip_Nil)
  with assms show ?thesis by (auto simp: save_message_def Let_def)
qed





lemma history_SomeD:
  assumes "get_conversation_history E cid user_id s = Inr (Some h)"
  shows "h = map (as_history_item E)
       (sort_key m_created_at (filter (\<lambda>m. m_conversation_id m = cid) (messages s)))"
  using assms
  by (auto simp: get_conversation_history_def split: option.splits list.splits)

lemma history_item_created_at:
  "map h_created_at (map (as_history_item E) ms) = map m_created_at ms"
  by (simp add: as_history_item_def)

lemma save_message_keeps_time_order:
  assumes "clock_never_set_back E" and "messages_in_time_order E s"
  shows "messages_in_time_order E (snd (save_message E cid role text s))"
proof -
  from assms(1) have step: "utcnow E (ticks s) \<le> utcnow E (ticks s + 1)"
    by (simp add: clock_never_set_back_def)
  from assms(2) have srt: "sorted (map m_created_at (messages s))"
    and bnd: "\<forall>m\<in>set (messages s). m_created_at m \<le> utcnow E (ticks s)"
    by (simp_all add: messages_in_time_order_def list_all_iff)
  from bnd step have bnd': "\<forall>m\<in>set (messages s). m_created_at m \<le> utcnow E (ticks s + 1)"
    by force
  have "snd (save_message E cid role text s) = s
      \<or> snd (save_message E cid role text s) = s\<lparr>ticks := ticks s + 1, drawn := drawn s + 1\<rparr>
      \<or> snd (save_message E cid role text s)
                  = s\<lparr>ticks := ticks s + 1, drawn := drawn s + 1,
                       messages := messages s @ [\<lparr>m_id = uuid4 E (drawn s),
                          m_conversation_id = cid, m_role = role, m_content = strip text,
                          m_created_at = utcnow E (ticks s)\<rparr>]\<rparr>"
    by (cases "fault s") (simp_all add: save_message_def Let_def)
  then consider (rejected) "snd (save_message E cid role text s) = s"
    | (failed) "snd (save_message E cid role text s)
                  = s\<lparr>ticks := ticks s + 1, drawn := drawn s + 1\<rparr>"
    | (saved) "snd (save_message E cid role text s)
                  = s\<lparr>ticks := ticks s + 1, drawn := drawn s + 1,
                       messages := messages s @ [\<lparr>m_id = uuid4 E (drawn s),
                          m_conversation_id = cid, m_role = role, m_content = strip text,
                          m_created_at = utcnow E (ticks s)\<rparr>]\<rparr>"
    by blast
  then show ?thesis
  proof cases
    case rejected
    with assms(2) show ?thesis by simp
  next
    case failed
    with srt bnd' show ?thesis by (simp add: messages_in_time_order_def list_all_iff)
  next
    case saved
    with srt bnd bnd' step show ?thesis
      by (auto simp: messages_in_time_order_def list_all_iff sorted_append)
  qed
qed

text \<open>
  Claim C9, as the code has it. Every history read is in non-decreasing \<^verbatim>\<open>created_at\<close>
  order. It is the insertion order of the conversation's messages, role and content
  included, when the stored \<^verbatim>\<open>created_at\<close> values do not decrease along the insertion
  order and rows of equal \<^verbatim>\<open>created_at\<close> come back in insertion order; and a clock that
  is never set back keeps the table so at every append.
\<close>

theorem history_order:
  assumes "get_conversation_history E cid user_id s = Inr (Some h)"
  shows "sorted (map h_created_at h)
     \<and> (messages_in_time_order E s \<longrightarrow>
          h = map (as_history_item E) (filter (\<lambda>m. m_conversation_id m = cid) (messages s)))
     \<and> (clock_never_set_back E \<and> messages_in_time_order E s \<longrightarrow>
          messages_in_time_order E (snd (save_message E conversation_id role text s)))"
proof -
  note h = history_SomeD[OF assms]
  have a: "sorted (map h_created_at h)"
    unfolding h history_item_created_at by (rule sorted_sort_key)
  have b: "messages_in_time_order E s \<longrightarrow>
          h = map (as_history_item E) (filter (\<lambda>m. m_conversation_id m = cid) (messages s))"
  proof
    assume "messages_in_time_order E s"
    then have "sorted (map m_created_at (messages s))"
      by (simp add: messages_in_time_order_def)
    then have "sorted (map m_created_at (filter (\<lambda>m. m_conversation_id m = cid) (messages s)))"
      by (rule sorted_filter)
    then have "sort_key m_created_at (filter (\<lambda>m. m_conversation_id m = cid) (messages s))
                 = filter (\<lambda>m. m_conversation_id m = cid) (messages s)"
      by (rule sort_key_id_if_sorted)
    with h show "h = map (as_history_item E)
                       (filter (\<lambda>m. m_conversation_id m = cid) (messages s))"
      by simp
  qed
  have c: "clock_never_set_back E \<and> messages_in_time_order E s \<longrightarrow>
          messages_in_time_order E (snd (save_message E conversation_id role text s))"
    using save_message_keeps_time_order by blast
  from a b c show ?thesis by blast
qed

theorem history_order_witness:
  "get_conversation_history ext0 7 10 (snd (save_message ext0 7 ''user'' ''first'' w0))
     = Inr (Some [\<lparr>h_id = ''00000000-0000-0000-0000-000000001000'', h_role = ''user'',
                   h_content = ''first'', h_created_at = 1000\<rparr>])
   \<and> clock_never_set_back ext0
   \<and> messages_in_time_order ext0 (snd (save_message ext0 7 ''user'' ''first'' w0))
   \<and> messages_in_time_order ext0
        (snd (save_message ext0 7 ''assistant'' ''second''
               (snd (save_message ext0 7 ''user'' ''first'' w0))))
   \<and> get_conversation_history ext0 7 10
        (snd (save_message ext0 7 ''assistant'' ''second''
               (snd (save_message ext0 7 ''user'' ''first'' w0))))
     = Inr (Some [\<lparr>h_id = ''00000000-0000-0000-0000-000000001000'', h_role = ''user'',
                   h_content = ''first'', h_created_at = 1000\<rparr>,
                  \<lparr>h_id = ''00000000-0000-0000-0000-000000001001'', h_role = ''assistant'',
                   h_content = ''second'', h_created_at = 1001\<rparr>])"
proof -
  have h1: "get_conversation_history ext0 7 10 (snd (save_message ext0 7 ''user'' ''first'' w0))
     = Inr (Some [\<lparr>h_id = ''00000000-0000-0000-0000-000000001000'', h_role = ''user'',
                   h_content = ''first'', h_created_at = 1000\<rparr>])"
    by code_simp
  have h2: "clock_never_set_back ext0"
    by (simp add: clock_never_set_back_def ext0_def)
  have h3: "messages_in_time_order ext0 (snd (save_message ext0 7 ''user'' ''first'' w0))"
    by code_simp
  have h4: "get_conversation_history ext0 7 10
        (snd (save_message ext0 7 ''assistant'' ''second''
               (snd (save_message ext0 7 ''user'' ''first'' w0))))
     = Inr (Some [\<lparr>h_id = ''00000000-0000-0000-0000-000000001000'', h_role = ''user'',
                   h_content = ''first'', h_created_at = 1000\<rparr>,
                  \<lparr>h_id = ''00000000-0000-0000-0000-000000001001'', h_role = ''assistant'',
                   h_content = ''second'', h_created_at = 1001\<rparr>])"
    by code_simp
  from history_order[OF h1, of 7 "''assistant''" "''second''"] h2 h3
  have "messages_in_time_order ext0
        (snd (save_message ext0 7 ''assistant'' ''second''
               (snd (save_message ext0 7 ''user'' ''first'' w0))))"
    by blast
  with h1 h2 h3 h4 show ?thesis by blast
qed

text \<open>
  Claim C9 as stated fails when the clock is set back between two appends: the history is
  then in \<^verbatim>\<open>created_at\<close> order and not in insertion order. Here \<^verbatim>\<open>"first"\<close> is appended
  at 1000 and \<^verbatim>\<open>"second"\<close> at 999, and the history lists \<^verbatim>\<open>"second"\<close> first.
\<close>

theorem history_not_in_insertion_order:
  "map m_content (messages (snd (save_message ext_set_back 7 ''assistant'' ''second''
        (snd (save_message ext_set_back 7 ''user'' ''first'' w0)))))
     = [''first'', ''second'']
   \<and> get_conversation_history ext_set_back 7 10
        (snd (save_message ext_set_back 7 ''assistant'' ''second''
               (snd (save_message ext_set_back 7 ''user'' ''first'' w0))))
     = Inr (Some [\<lparr>h_id = ''00000000-0000-0000-0000-000000001001'', h_role = ''assistant'',
                   h_content = ''second'', h_created_at = 999\<rparr>,
                  \<lparr>h_id = ''00000000-0000-0000-0000-000000001000'', h_role = ''user'',
                   h_content = ''first'', h_created_at = 1000\<rparr>])"
  by code_simp

lemma others_map_replace:
  assumes "filter (\<lambda>x. t_id x = tid) xs = [t]" and "t_user_id t = u" and "t_user_id t' = u"
  shows "filter (\<lambda>x. t_user_id x \<noteq> u) (map (\<lambda>x. if t_id x = tid then t' else x) xs)
           = filter (\<lambda>x. t_user_id x \<noteq> u) xs"
proof -
  from filter_singleD(2)[OF assms(1)] have u: "\<forall>x\<in>set xs. t_id x = tid \<longrightarrow> x = t" .
  show ?thesis using u
  proof (induction xs)
    case Nil
    then show ?case by simp
  next
    case (Cons a xs)
    then show ?case using assms(2,3) by auto
  qed
qed

lemma others_filter_remove:
  assumes "filter (\<lambda>x. t_id x = tid) xs = [t]" and "t_user_id t = u"
  shows "filter (\<lambda>x. t_user_id x \<noteq> u) (filter (\<lambda>x. t_id x \<noteq> tid) xs)
           = filter (\<lambda>x. t_user_id x \<noteq> u) xs"
proof -
  from filter_singleD(2)[OF assms(1)] have u: "\<forall>x\<in>set xs. t_id x = tid \<longrightarrow> x = t" .
  show ?thesis using u
  proof (induction xs)
    case Nil
    then show ?case by simp
  next
    case (Cons a xs)
    then show ?case using assms(2) by auto
  qed
qed

lemma add_task_others:
  assumes "uuid_parse E user_id = Some u"
  shows "others_tasks u (snd (add_task E user_id title priority due_date tags s))
           = others_tasks u s"
  using assms
  by (cases "fault s") (auto simp: add_task_def Let_def others_tasks_def)

lemma list_tasks_others:
  "others_tasks u (snd (list_tasks E user_id filter_completed s)) = others_tasks u s"
  by (auto simp: list_tasks_def Let_def others_tasks_def split: option.splits)

lemma complete_task_others:
  assumes "uuid_parse E user_id = Some u"
  shows "others_tasks u (snd (complete_task E user_id task_id s)) = others_tasks u s"
proof (cases "uuid_parse E task_id")
  case None
  with assms show ?thesis by (simp add: complete_task_def)
next
  case (Some tid)
  show ?thesis
  proof (cases "select_task s tid")
    case (Inl m)
    with assms Some show ?thesis by (simp add: complete_task_def)
  next
    case (Inr r)
    show ?thesis
    proof (cases r)
      case None
      with assms Some Inr show ?thesis by (simp add: complete_task_def)
    next
      case (Some t)
      with Inr have sel: "select_task s tid = Inr (Some t)" by simp
      from select_task_SomeD[OF sel] have f: "filter (\<lambda>x. t_id x = tid) (tasks s) = [t]"
        by simp
      show ?thesis
        using assms \<open>uuid_parse E task_id = Some tid\<close> sel
          others_map_replace[OF f, of u
            "t\<lparr>t_completed := True, t_updated_at := utcnow E (ticks s)\<rparr>"]
        by (auto simp: complete_task_def Let_def others_tasks_def)
    qed
  qed
qed

lemma delete_task_others:
  assumes "uuid_parse E user_id = Some u"
  shows "others_tasks u (snd (delete_task E user_id task_id s)) = others_tasks u s"
proof (cases "uuid_parse E task_id")
  case None
  with assms show ?thesis by (simp add: delete_task_def)
next
  case (Some tid)
  show ?thesis
  proof (cases "select_task s tid")
    case (Inl m)
    with assms Some show ?thesis by (simp add: delete_task_def)
  next
    case (Inr r)
    show ?thesis
    proof (cases r)
      case None
      with assms Some Inr show ?thesis by (simp add: delete_task_def)
    next
      case (Some t)
      with Inr have sel: "select_task s tid = Inr (Some t)" by simp
      from select_task_SomeD[OF sel] have f: "filter (\<lambda>x. t_id x = tid) (tasks s) = [t]"
        by simp
      show ?thesis
        using assms \<open>uuid_parse E task_id = Some tid\<close> sel others_filter_remove[OF f, of u]
        by (auto simp: delete_task_def Let_def others_tasks_def)
    qed
  qed
qed

lemma update_task_others:
  assumes "uuid_parse E user_id = Some u"
  shows "others_tasks u (snd (update_task E user_id task_id new_title completed priority
                                 due_date tags s)) = others_tasks u s"
proof (cases "update_task E user_id task_id new_title completed priority due_date tags s")
  case (Pair r s')
  show ?thesis
  proof (cases r)
    case (Inl e)
    with Pair have "s' = s"
      by (auto simp: update_task_def Let_def split: option.splits if_splits sum.splits)
    with Pair show ?thesis by simp
  next
    case (Inr d)
    with Pair have ok: "update_task E user_id task_id new_title completed priority due_date tags s
                          = (Inr d, s')" by simp
    let ?t' = "\<lambda>t. t\<lparr>t_title := (case new_title of None \<Rightarrow> t_title t | Some n \<Rightarrow> strip n),
                        t_completed := (case completed of None \<Rightarrow> t_completed t | Some c \<Rightarrow> c),
                        t_priority := (case priority of None \<Rightarrow> t_priority t | Some p \<Rightarrow> p),
                        t_due_date := (case due_date of None \<Rightarrow> t_due_date t
                                        | Some x \<Rightarrow> fromisoformat E (replace_Z x)),
                        t_tags := (case tags of None \<Rightarrow> t_tags t | Some g \<Rightarrow> Some (strip g)),
                        t_updated_at := utcnow E (ticks s)\<rparr>"
    from update_task_InrD[OF ok] obtain u0 tid t where
      u0: "uuid_parse E user_id = Some u0"
      and sel: "select_task s tid = Inr (Some t)" and own0: "t_user_id t = u0"
      and s': "s' = s\<lparr>ticks := ticks s + 1,
                      tasks := map (\<lambda>x. if t_id x = tid then ?t' t else x) (tasks s)\<rparr>"
      by blast
    from u0 assms own0 have own: "t_user_id t = u" by simp
    then have own': "t_user_id (?t' t) = u" by simp
    from select_task_SomeD[OF sel] have f: "filter (\<lambda>x. t_id x = tid) (tasks s) = [t]"
      by simp
    from others_map_replace[OF f own own'] Pair s' show ?thesis
      by (simp add: others_tasks_def)
  qed
qed

lemma uuid_arg_user_id:
  "map_of function_args ''user_id'' = Some (JStr us) \<Longrightarrow> uuid_arg function_args ''user_id'' = Inr us"
  by (simp add: uuid_arg_def str_arg_def)

lemma call_tool_others:
  assumes "map_of function_args ''user_id'' = Some (JStr us)" and "uuid_parse E us = Some u"
  shows "others_tasks u (snd (call_tool E name function_args s)) = others_tasks u s"
  using add_task_others[OF assms(2)] list_tasks_others[of u E us]
    complete_task_others[OF assms(2)] delete_task_others[OF assms(2)]
    update_task_others[OF assms(2)]
  by (simp add: call_tool_def uuid_arg_user_id[OF assms(1)]
        split: sum.split option.split prod.split)

lemma execute_tool_others:
  assumes "map_of function_args ''user_id'' = Some (JStr us)" and "uuid_parse E us = Some u"
  shows "others_tasks u (snd (execute_tool E name function_args s)) = others_tasks u s"
  using call_tool_others[OF assms] by (simp add: execute_tool_def Let_def)

lemma process_openai_response_others:
  assumes "uuid_parse E (uuid_str E user_id) = Some user_id"
  shows "others_tasks user_id (snd (process_openai_response E message user_id s))
           = others_tasks user_id s"
proof (cases "msg_tool_calls message")
  case Nil
  then show ?thesis by (simp add: process_openai_response_def)
next
  case (Cons tool_call rest)
  show ?thesis
  proof (cases "tc_arguments tool_call")
    case (Inl m)
    with Cons show ?thesis by (simp add: process_openai_response_def)
  next
    case (Inr function_args)
    let ?args = "AList.update ''user_id'' (JStr (uuid_str E user_id)) function_args"
    have "map_of ?args ''user_id'' = Some (JStr (uuid_str E user_id))"
      by (simp add: AList.update_conv')
    from execute_tool_others[OF this assms, of "tc_name tool_call" s] Cons Inr
    show ?thesis
      by (cases "execute_tool E (tc_name tool_call) ?args s")
         (auto simp: process_openai_response_def split: sum.split)
  qed
qed

section \<open>The Agent Orchestrator\<close>

text \<open>
  Claim C1. Whatever \<^verbatim>\<open>user_id\<close> the model put into the arguments of its tool call, or
  none, the orchestrator runs the tool on arguments whose \<^verbatim>\<open>user_id\<close> is the text of the
  authenticated caller's id, and the reply and the state after the call are the same for
  every such value: they do not depend on it. With a UUID type whose text reads back as the
  id, the tasks of all other owners are after the turn what they were before it.
\<close>

theorem owner_argument_overwritten:
  "map_of (AList.update ''user_id'' (JStr (uuid_str E user_id))
             (AList.update ''user_id'' v function_args)) ''user_id''
     = Some (JStr (uuid_str E user_id))
   \<and> process_openai_response E
        \<lparr>msg_content = c,
         msg_tool_calls = \<lparr>tc_name = name,
                            tc_arguments = Inr (AList.update ''user_id'' v function_args)\<rparr> # rest\<rparr>
        user_id s
     = process_openai_response E
        \<lparr>msg_content = c,
         msg_tool_calls = \<lparr>tc_name = name, tc_arguments = Inr function_args\<rparr> # rest\<rparr>
        user_id s
   \<and> process_openai_response E
        \<lparr>msg_content = c,
         msg_tool_calls = \<lparr>tc_name = name,
                            tc_arguments = Inr (AList.update ''user_id'' v function_args)\<rparr> # rest\<rparr>
        user_id s
     = (case execute_tool E name
               (AList.update ''user_id'' (JStr (uuid_str E user_id)) function_args) s of
          (Inr result, s') \<Rightarrow> (Inr (generate_response_from_result name result), s')
        | (Inl e, s') \<Rightarrow> (Inr (''Sorry, I encountered an error: '' @ str_exn e), s'))
   \<and> (uuid_parse E (uuid_str E user_id) = Some user_id \<longrightarrow>
        others_tasks user_id (snd (process_openai_response E message user_id s))
          = others_tasks user_id s)"
  using process_openai_response_others[of E user_id message s]
  by (simp add: process_openai_response_def AList.update_conv' split: prod.split sum.split)

theorem owner_argument_overwritten_witness:
  "uuid_parse ext0 (uuid_str ext0 11) = Some 11
   \<and> others_tasks 11
        (snd (process_openai_response ext0
                (calls ''delete_task'' [(''user_id'', JStr alice), (''task_id'', JStr task1)])
                11 w0))
      = others_tasks 11 w0
   \<and> process_openai_response ext0
        (calls ''delete_task'' [(''user_id'', JStr alice), (''task_id'', JStr task1)]) 11 w0
      = (Inr ''Sorry, I encountered an error: TASK_NOT_FOUND: Task belongs to different user'',
         w0)
   \<and> process_openai_response ext0
        (calls ''delete_task'' [(''user_id'', JStr alice), (''task_id'', JStr task1)]) 11 w0
      = process_openai_response ext0 (calls ''delete_task'' [(''task_id'', JStr task1)]) 11 w0"
proof -
  have h: "uuid_parse ext0 (uuid_str ext0 11) = Some 11" by code_simp
  have e: "process_openai_response ext0
        (calls ''delete_task'' [(''user_id'', JStr alice), (''task_id'', JStr task1)]) 11 w0
      = (Inr ''Sorry, I encountered an error: TASK_NOT_FOUND: Task belongs to different user'',
         w0)"
    by code_simp
  have u: "AList.update ''user_id'' (JStr alice) [(''task_id'', JStr task1)]
             = [(''task_id'', JStr task1), (''user_id'', JStr alice)]"
    by simp
  have f: "process_openai_response ext0
        (calls ''delete_task'' [(''user_id'', JStr alice), (''task_id'', JStr task1)]) 11 w0
      = process_openai_response ext0 (calls ''delete_task'' [(''task_id'', JStr task1)]) 11 w0"
    by code_simp
  from owner_argument_overwritten[of ext0 11 "JStr alice" "[(''task_id'', JStr task1)]" None
         "''delete_task''" "[]" w0
         "calls ''delete_task'' [(''user_id'', JStr alice), (''task_id'', JStr task1)]"] h
  have "others_tasks 11
        (snd (process_openai_response ext0
                (calls ''delete_task'' [(''user_id'', JStr alice), (''task_id'', JStr task1)])
                11 w0))
      = others_tasks 11 w0"
    by blast
  with h e f show ?thesis by blast
qed

lemma strip_nonblank: "\<not> isspace c \<Longrightarrow> strip (c # xs) \<noteq> []"
proof -
  assume c: "\<not> isspace c"
  then have "dropWhile isspace (c # xs) = c # xs" by simp
  moreover have "dropWhile isspace (rev (c # xs)) \<noteq> []"
    using c by (auto simp: dropWhile_eq_Nil_conv)
  ultimately show ?thesis by (simp add: strip_def)
qed

lemma letters_not_space:
  "\<not> isspace CHR ''I''" "\<not> isspace CHR ''S''" "\<not> isspace CHR ''Y''" "\<not> isspace CHR ''H''"
  by (simp_all add: isspace_def)

text \<open>
  Claim C4, as the code has it. A failure of the tool (any exception of \<^verbatim>\<open>_execute_tool\<close>:
  unknown tool, missing parameters, invalid argument, not found, storage) is not raised:
  the reply is \<^verbatim>\<open>"Sorry, I encountered an error: "\<close> followed by the text of the
  exception, error code included. A failure of the call to the language model is not
  raised either: the reply is \<^verbatim>\<open>"I encountered an error processing your request: "\<close>
  followed by the text of the exception, and with a loaded conversation and a user message
  that is not blank the turn returns normally with that reply.
\<close>

theorem failures_become_replies:
  "(execute_tool E name (AList.update ''user_id'' (JStr (uuid_str E user_id)) function_args) s
      = (Inl e, s') \<longrightarrow>
    process_openai_response E
       \<lparr>msg_content = c,
        msg_tool_calls = \<lparr>tc_name = name, tc_arguments = Inr function_args\<rparr> # rest\<rparr> user_id s
      = (Inr (''Sorry, I encountered an error: '' @ str_exn e), s'))
   \<and> (completions_create E (format_messages_for_openai user_message []) = ApiError m \<longrightarrow>
    process_message E user_message user_id None s
      = (Inr \<lparr>ar_assistant_message = ''I encountered an error processing your request: '' @ m,
              ar_history = [], ar_conversation_id = None\<rparr>, s))
   \<and> (get_conversation_history E cid user_id s = Inr (Some history)
       \<and> completions_create E (format_messages_for_openai user_message history) = ApiError m
       \<and> strip user_message \<noteq> [] \<longrightarrow>
    (\<exists>s''. process_message E user_message user_id (Some cid) s
      = (Inr \<lparr>ar_assistant_message = ''I encountered an error processing your request: '' @ m,
              ar_history = history, ar_conversation_id = Some (uuid_str E cid)\<rparr>, s'')))"
  (is "?A \<and> ?B \<and> ?C")
proof -
  have a: ?A by (simp add: process_openai_response_def)
  have b: ?B by (simp add: process_message_def)
  have c: ?C
  proof
    assume h: "get_conversation_history E cid user_id s = Inr (Some history)
       \<and> completions_create E (format_messages_for_openai user_message history) = ApiError m
       \<and> strip user_message \<noteq> []"
    then have fl: "fault s = None"
      by (auto simp: get_conversation_history_def split: option.splits)
    let ?a = "''I encountered an error processing your request: '' @ m"
    have nb: "strip ?a \<noteq> []" using letters_not_space(1) by (simp add: strip_nonblank)
    have r: "''user'' \<in> {''user'', ''assistant''}" "''assistant'' \<in> {''user'', ''assistant''}"
      by simp_all
    from h have um: "strip user_message \<noteq> []" by simp
    note s1 = save_message_ok[OF r(1) um fl, of E cid]
    let ?s1 = "s\<lparr>ticks := ticks s + 1, drawn := drawn s + 1,
        messages := messages s @ [\<lparr>m_id = uuid4 E (drawn s), m_conversation_id = cid,
                                   m_role = ''user'', m_content = strip user_message,
                                   m_created_at = utcnow E (ticks s)\<rparr>]\<rparr>"
    have fl1: "fault ?s1 = None" using fl by simp
    note s2 = save_message_ok[OF r(2) nb fl1, of E cid]
    show "\<exists>s''. process_message E user_message user_id (Some cid) s
      = (Inr \<lparr>ar_assistant_message = ?a,
              ar_history = history, ar_conversation_id = Some (uuid_str E cid)\<rparr>, s'')"
      using h s1 s2 by (simp add: process_message_def)
  qed
  from a b c show ?thesis by blast
qed

theorem failures_become_replies_witness:
  "execute_tool ext0 ''complete_task''
       (AList.update ''user_id'' (JStr (uuid_str ext0 10)) []) w0
     = (Inl (ValueError ''Missing required parameters: ['task_id']''), w0)
   \<and> process_openai_response ext0 (calls ''complete_task'' []) 10 w0
     = (Inr (''Sorry, I encountered an error: ''
             @ str_exn (ValueError ''Missing required parameters: ['task_id']'')), w0)
   \<and> completions_create ext0 (format_messages_for_openai ''Show my tasks'' [])
     = ApiError ''Connection error.''
   \<and> process_message ext0 ''Show my tasks'' 10 None w0
      = (Inr \<lparr>ar_assistant_message
                = ''I encountered an error processing your request: '' @ ''Connection error.'',
              ar_history = [], ar_conversation_id = None\<rparr>, w0)
   \<and> get_conversation_history ext0 7 10 w0 = Inr (Some [])
   \<and> strip ''Show my tasks'' \<noteq> []
   \<and> (\<exists>s''. process_message ext0 ''Show my tasks'' 10 (Some 7) w0
      = (Inr \<lparr>ar_assistant_message
                = ''I encountered an error processing your request: '' @ ''Connection error.'',
              ar_history = [], ar_conversation_id = Some (uuid_str ext0 7)\<rparr>, s''))"
proof -
  have h1: "execute_tool ext0 ''complete_task''
       (AList.update ''user_id'' (JStr (uuid_str ext0 10)) []) w0
     = (Inl (ValueError ''Missing required parameters: ['task_id']''), w0)"
    by code_simp
  have h2: "completions_create ext0 (format_messages_for_openai ''Show my tasks'' [])
     = ApiError ''Connection error.''"
    by (simp add: ext0_def)
  have h3: "get_conversation_history ext0 7 10 w0 = Inr (Some [])" by code_simp
  have h4: "strip ''Show my tasks'' \<noteq> []" by code_simp
  note t = failures_become_replies[of ext0 "''complete_task''" 10 "[]" w0
      "ValueError ''Missing required parameters: ['task_id']''" w0 None "[]"
      "''Show my tasks''" "''Connection error.''" 7 "[]"]
  from t h1 have c1: "process_openai_response ext0 (calls ''complete_task'' []) 10 w0
     = (Inr (''Sorry, I encountered an error: ''
             @ str_exn (ValueError ''Missing required parameters: ['task_id']'')), w0)"
    unfolding calls_def by blast
  from t h2 have c2: "process_message ext0 ''Show my tasks'' 10 None w0
      = (Inr \<lparr>ar_assistant_message
                = ''I encountered an error processing your request: '' @ ''Connection error.'',
              ar_history = [], ar_conversation_id = None\<rparr>, w0)"
    by blast
  from t h2 h3 h4 have c3: "\<exists>s''. process_message ext0 ''Show my tasks'' 10 (Some 7) w0
      = (Inr \<lparr>ar_assistant_message
                = ''I encountered an error processing your request: '' @ ''Connection error.'',
              ar_history = [], ar_conversation_id = Some (uuid_str ext0 7)\<rparr>, s'')"
    by blast
  show ?thesis by (intro conjI h1 h2 h3 h4 c1 c2 c3)
qed

text \<open>
  Claim C4 as stated fails: the reply for a tool failure carries the raw error code. For a
  malformed task id the user reads \<^verbatim>\<open>INVALID_TASK_ID\<close>.
\<close>

theorem reply_shows_error_code:
  "process_openai_response ext0 (calls ''complete_task'' [(''task_id'', JStr ''42'')]) 10 w0
     = (Inr ''Sorry, I encountered an error: INVALID_TASK_ID: task_id must be a valid UUID'',
        w0)"
  by code_simp

section \<open>Persisting the turn\<close>















end
